theory Spec2Isabelle
  imports Main "HOL-Library.Word" "HOL-Library.Sublist" "HOL-Library.Monad_Syntax"
begin

unbundle bit_operations_syntax

section \<open>dxfuse: the metadata index and its callers\<close>

text \<open>
  The development follows \<^verbatim>\<open>src/util.go\<close> (constants, the \<^verbatim>\<open>Dir\<close> and
  \<^verbatim>\<open>File\<close> nodes and their attributes) and the metadata database part of
  \<^verbatim>\<open>src/cli/main.go\<close> (from \<^verbatim>\<open>splitPath\<close> to \<^verbatim>\<open>CreateFile\<close>).

  Conventions of the model.
  \<^item> Go strings are \<open>string\<close> (byte lists), \<^verbatim>\<open>int64\<close> values are \<open>int\<close>; the two
    additions of the code (\<^verbatim>\<open>inodeCnt += 1\<close> and \<^verbatim>\<open>nlink + 1\<close>) wrap at 64 bits.
  \<^item> \<^verbatim>\<open>time.Time\<close> is the number of seconds since the Unix epoch; the zero value of the
    type (1 January of year 1, UTC) is \<open>-62135596800\<close>.
  \<^item> An \<^verbatim>\<open>error\<close> result and a \<^verbatim>\<open>panic\<close> are values of the type \<open>error\<close>; a function that
    can fail returns \<open>error + 'a\<close>.
  \<^item> The three sqlite tables are lists of rows in insertion order. An \<^verbatim>\<open>INSERT\<close> fails
    exactly when the primary key of the new row is already present, an \<^verbatim>\<open>UPDATE\<close> changes
    the rows its \<^verbatim>\<open>WHERE\<close> clause selects.
  \<^item> A statement is the text that \<^verbatim>\<open>fmt.Sprintf\<close> builds: the arguments of the \<^verbatim>\<open>%s\<close>
    verbs are spliced between single quotes as they are. The text is read back with the
    lexical rules of sqlite for string literals, integer literals, words, punctuation,
    white space and \<^verbatim>\<open>--\<close> comments, and the values are converted as the declared type
    of their column requires. A text with an unterminated string literal in its first
    statement is a syntax error (\<open>SqlError\<close>). A text that is well formed but is not,
    token by token, the statement that was written with other values in the places of
    the literals (an operator, a further statement, a value that is not a plain literal)
    lies outside the fragment of SQL that is read here: the result is \<open>Unmodelled\<close>,
    the execution stops there as it does for an error, and nothing is claimed about
    what the code does in that case. Statements whose only verbs are \<^verbatim>\<open>%d\<close> are taken
    with the numbers in place. Failures of the storage layer itself (\<^verbatim>\<open>Begin\<close>,
    \<^verbatim>\<open>Commit\<close>, \<^verbatim>\<open>Rollback\<close>) are outside the model; the code discards the results of
    \<^verbatim>\<open>Commit\<close> and of \<^verbatim>\<open>setDirectoryToPopulated\<close> in the population of a directory.
  \<^item> A transaction works on the tables held in the \<open>Filesys\<close> value that is threaded
    through; \<^verbatim>\<open>Rollback\<close> puts the tables of the start of the transaction back. The inode
    counter lives in memory and is not rolled back.
  \<^item> Iteration over a Go map is iteration over an association list: the order of the list
    is the (unspecified) order in which the map happens to be traversed.
  \<^item> Remote calls are functions of an environment \<open>Env\<close>; every call is also appended to
    the log \<open>calls\<close> of the file system, so that "no remote call" can be stated. A failing
    remote call is the error \<open>RemoteError\<close>, a failing fix-up the error \<open>FixupError\<close>:
    whatever error value they return in the code, it is none of the values the code
    compares with (\<^verbatim>\<open>fuse.ENOENT\<close>).
\<close>

subsection \<open>Errors\<close>

datatype error = ENOENT | EEXIST | EPERM | RemoteError | FixupError | SqlError | Panic
  | Unmodelled

subsection \<open>Strings and paths\<close>

definition HasPrefix :: "string \<Rightarrow> string \<Rightarrow> bool" where
  "HasPrefix s p = prefix p s"

text \<open>Splitting a path at every slash; the result is never empty.\<close>

fun splitSlash :: "string \<Rightarrow> string list" where
  "splitSlash [] = [[]]"
| "splitSlash (c # cs) =
     (if c = CHR ''/'' then [] # splitSlash cs
      else (case splitSlash cs of [] \<Rightarrow> [[c]] | w # ws \<Rightarrow> (c # w) # ws))"

fun joinSlash :: "string list \<Rightarrow> string" where
  "joinSlash [] = []"
| "joinSlash [w] = w"
| "joinSlash (w # ws) = w @ ''/'' @ joinSlash ws"

text \<open>
  \<^verbatim>\<open>filepath.Clean\<close> of the Go library, on the components of the path: empty components
  and \<^verbatim>\<open>.\<close> are dropped, \<^verbatim>\<open>..\<close> removes the component before it (when there is one that
  is not itself \<^verbatim>\<open>..\<close>), is dropped at the root of a rooted path and is kept otherwise.
  \<open>out\<close> is the output so far, last component first.
\<close>

fun cleanComps :: "bool \<Rightarrow> string list \<Rightarrow> string list \<Rightarrow> string list" where
  "cleanComps rooted out [] = rev out"
| "cleanComps rooted out (c # cs) =
     (if c = [] \<or> c = ''.'' then cleanComps rooted out cs
      else if c = ''..'' then
        (case out of
           t # ts \<Rightarrow> if t \<noteq> ''..'' then cleanComps rooted ts cs
                     else cleanComps rooted (c # out) cs
         | [] \<Rightarrow> if rooted then cleanComps rooted out cs
                 else cleanComps rooted (c # out) cs)
      else cleanComps rooted (c # out) cs)"

definition Clean :: "string \<Rightarrow> string" where
  "Clean path =
     (case path of
        [] \<Rightarrow> ''.''
      | c # _ \<Rightarrow>
          (let rooted = (c = CHR ''/'');
               body = joinSlash (cleanComps rooted [] (splitSlash path));
               out = (if rooted then CHR ''/'' # body else body)
           in if out = [] then ''.'' else out))"

text \<open>\<^verbatim>\<open>filepath.Dir\<close>: everything up to the last slash, cleaned.\<close>

definition Dir :: "string \<Rightarrow> string" where
  "Dir path = Clean (rev (dropWhile (\<lambda>c. c \<noteq> CHR ''/'') (rev path)))"

text \<open>\<^verbatim>\<open>filepath.Base\<close>: the last element, trailing slashes removed first.\<close>

definition Base :: "string \<Rightarrow> string" where
  "Base path =
     (if path = [] then ''.''
      else
        (let p = dropWhile (\<lambda>c. c = CHR ''/'') (rev path);
             b = rev (takeWhile (\<lambda>c. c \<noteq> CHR ''/'') p)
         in if b = [] then ''/'' else b))"

text \<open>\<^verbatim>\<open>filepath.Join\<close> of two elements.\<close>

definition Join :: "string \<Rightarrow> string \<Rightarrow> string" where
  "Join a b =
     (if a \<noteq> [] then Clean (a @ ''/'' @ b)
      else if b \<noteq> [] then Clean b
      else [])"

definition splitPath :: "string \<Rightarrow> string \<times> string" where
  "splitPath fullPath =
     (if fullPath = ''/'' then ([], ''/'') else (Dir fullPath, Base fullPath))"

subsection \<open>Constants of \<^verbatim>\<open>util.go\<close> and of the metadata database\<close>

definition InodeInvalid :: int where "InodeInvalid = 0"
definition InodeRoot :: int where "InodeRoot = 1"

definition FK_Regular :: int where "FK_Regular = 10"
definition FK_Symlink :: int where "FK_Symlink = 11"
definition FK_Applet :: int where "FK_Applet = 12"
definition FK_Workflow :: int where "FK_Workflow = 13"
definition FK_Record :: int where "FK_Record = 14"
definition FK_Database :: int where "FK_Database = 15"
definition FK_Other :: int where "FK_Other = 16"

definition nsDirType :: int where "nsDirType = 1"
definition nsDataObjType :: int where "nsDataObjType = 2"

definition dirDoesNotExist :: int where "dirDoesNotExist = 1"
definition dirExistsButNotPopulated :: int where "dirExistsButNotPopulated = 2"
definition dirExistAndPopulated :: int where "dirExistAndPopulated = 3"

definition ModeDir :: "32 word" where "ModeDir = push_bit 31 1"

definition zeroTime :: int where "zeroTime = - 62135596800"

definition secondsToTime :: "int \<Rightarrow> int" where
  "secondsToTime t = t"

definition MaxInt64 :: "int \<Rightarrow> int \<Rightarrow> int" where
  "MaxInt64 x y = (if x < y then y else x)"

definition MinInt64 :: "int \<Rightarrow> int \<Rightarrow> int" where
  "MinInt64 x y = (if x > y then y else x)"

text \<open>Two's complement wrap-around of a 64-bit signed result.\<close>

definition wrap64 :: "int \<Rightarrow> int" where
  "wrap64 x = (x + 2 ^ 63) mod 2 ^ 64 - 2 ^ 63"

subsection \<open>Nodes and their attributes (\<^verbatim>\<open>util.go\<close>)\<close>

record Options =
  ReadOnly :: bool
  Verbose :: bool
  VerboseLevel :: int
  opt_Uid :: "32 word"
  opt_Gid :: "32 word"

record InodeAttributes =
  a_Size :: "64 word"
  a_Nlink :: "32 word"
  a_Mode :: "32 word"
  a_Atime :: int
  a_Mtime :: int
  a_Ctime :: int
  a_Crtime :: int
  a_Uid :: "32 word"
  a_Gid :: "32 word"

text \<open>The zero value of the struct, which a named result starts from.\<close>

definition zeroAttributes :: InodeAttributes where
  "zeroAttributes =
     \<lparr>a_Size = 0, a_Nlink = 0, a_Mode = 0, a_Atime = zeroTime, a_Mtime = zeroTime,
      a_Ctime = zeroTime, a_Crtime = zeroTime, a_Uid = 0, a_Gid = 0\<rparr>"

record DirNode =
  d_Parent :: string
  d_Dname :: string
  d_FullPath :: string
  d_Inode :: int
  d_Ctime :: int
  d_Mtime :: int
  d_Mode :: "32 word"
  d_Uid :: "32 word"
  d_Gid :: "32 word"
  d_ProjId :: string
  d_ProjFolder :: string
  d_Populated :: bool

record FileNode =
  f_Kind :: int
  f_Id :: string
  f_ProjId :: string
  f_Name :: string
  f_Size :: int
  f_Inode :: int
  f_Ctime :: int
  f_Mtime :: int
  f_Mode :: "32 word"
  f_Nlink :: int
  f_Uid :: "32 word"
  f_Gid :: "32 word"
  f_InlineData :: string

text \<open>
  \<^verbatim>\<open>func (d Dir) GetAttrs() (a fuseops.InodeAttributes)\<close>. The statements
  \<^verbatim>\<open>a.Mtime = a.Mtime\<close> and \<^verbatim>\<open>a.Ctime = a.Ctime\<close> assign the result's own fields, and
  \<^verbatim>\<open>a.Crtime = a.Ctime\<close> reads the result as well.
\<close>

definition Dir_GetAttrs :: "DirNode \<Rightarrow> InodeAttributes" where
  "Dir_GetAttrs d =
     (let a = zeroAttributes;
          a = a\<lparr>a_Size := 4096\<rparr>;
          a = a\<lparr>a_Nlink := 1\<rparr>;
          a = a\<lparr>a_Mtime := a_Mtime a\<rparr>;
          a = a\<lparr>a_Ctime := a_Ctime a\<rparr>;
          a = a\<lparr>a_Mode := ModeDir OR d_Mode d\<rparr>;
          a = a\<lparr>a_Crtime := a_Ctime a\<rparr>;
          a = a\<lparr>a_Uid := d_Uid d\<rparr>;
          a = a\<lparr>a_Gid := d_Gid d\<rparr>
      in a)"

definition Dir_GetInode :: "DirNode \<Rightarrow> 64 word" where
  "Dir_GetInode d = word_of_int (d_Inode d)"

definition File_GetAttrs :: "FileNode \<Rightarrow> InodeAttributes" where
  "File_GetAttrs f =
     (let a = zeroAttributes;
          a = a\<lparr>a_Size := word_of_int (f_Size f)\<rparr>;
          a = a\<lparr>a_Nlink := word_of_int (f_Nlink f)\<rparr>;
          a = a\<lparr>a_Mtime := f_Mtime f\<rparr>;
          a = a\<lparr>a_Ctime := f_Ctime f\<rparr>;
          a = a\<lparr>a_Mode := f_Mode f\<rparr>;
          a = a\<lparr>a_Crtime := f_Ctime f\<rparr>;
          a = a\<lparr>a_Uid := f_Uid f\<rparr>;
          a = a\<lparr>a_Gid := f_Gid f\<rparr>
      in a)"

definition File_GetInode :: "FileNode \<Rightarrow> 64 word" where
  "File_GetInode f = word_of_int (f_Inode f)"

datatype Node = NDir DirNode | NFile FileNode

fun Node_GetAttrs :: "Node \<Rightarrow> InodeAttributes" where
  "Node_GetAttrs (NDir d) = Dir_GetAttrs d"
| "Node_GetAttrs (NFile f) = File_GetAttrs f"

subsection \<open>Remote descriptions\<close>

text \<open>
  The declarations of \<^verbatim>\<open>DxDescribeDataObject\<close>, \<^verbatim>\<open>DxFolder\<close> and \<^verbatim>\<open>PosixDir\<close> are not
  part of the sources at hand; the records have the fields the code reads.
\<close>

record DxDescribeDataObject =
  dx_Id :: string
  dx_ProjId :: string
  dx_Name :: string
  dx_Size :: int
  dx_CtimeSeconds :: int
  dx_MtimeSeconds :: int
  dx_SymlinkPath :: string

record DxFolder =
  dxf_dataObjects :: "DxDescribeDataObject list"
  dxf_subdirs :: "string list"

record PosixDir =
  pd_dataObjects :: "DxDescribeDataObject list"
  pd_subdirs :: "string list"
  pd_fauxSubdirs :: "(string \<times> DxDescribeDataObject list) list"

definition kindOfFile :: "DxDescribeDataObject \<Rightarrow> int" where
  "kindOfFile ob =
     (let kind = (if HasPrefix (dx_Id ob) ''file-'' then FK_Regular
                  else if HasPrefix (dx_Id ob) ''applet-'' then FK_Applet
                  else if HasPrefix (dx_Id ob) ''workflow-'' then FK_Workflow
                  else if HasPrefix (dx_Id ob) ''record-'' then FK_Record
                  else if HasPrefix (dx_Id ob) ''database-'' then FK_Database
                  else 0);
          kind = (if kind = 0 then FK_Other else kind);
          kind = (if kind = FK_Regular \<and> length (dx_SymlinkPath ob) > 0
                  then FK_Symlink else kind)
      in kind)"

definition inlineDataOfFile :: "int \<Rightarrow> DxDescribeDataObject \<Rightarrow> string" where
  "inlineDataOfFile kind0 ob =
     (let kind = (if kind0 = FK_Regular \<and> length (dx_SymlinkPath ob) > 0
                  then FK_Symlink else kind0)
      in if kind = FK_Symlink then dx_SymlinkPath ob else [])"

subsection \<open>The metadata store\<close>

record data_object_row =
  do_kind :: int
  do_id :: string
  do_proj_id :: string
  do_inode :: int
  do_size :: int
  do_ctime :: int
  do_mtime :: int
  do_nlink :: int
  do_inline_data :: string

record namespace_row =
  ns_parent :: string
  ns_name :: string
  ns_obj_type :: int
  ns_inode :: int

record directory_row =
  dir_inode :: int
  dir_proj_id :: string
  dir_proj_folder :: string
  dir_populated :: int
  dir_ctime :: int
  dir_mtime :: int

record Db =
  data_objects :: "data_object_row list"
  namespace :: "namespace_row list"
  directories :: "directory_row list"

record DirInfo =
  di_inode :: int
  di_projId :: string
  di_projFolder :: string
  di_ctime :: int
  di_mtime :: int

datatype remote_call =
  DescribeFolder string string
| FileNew string string string

record Filesys =
  options :: Options
  db :: Db
  inodeCnt :: int
  baseDir2ProjectId :: "(string \<times> string) list"
  calls :: "remote_call list"

text \<open>
  What lies outside the metadata database: the remote platform
  (\<^verbatim>\<open>DxDescribeFolder\<close>, \<^verbatim>\<open>DxFileNew\<close>), whose answer may depend on the calls made so far,
  the POSIX fix-up \<^verbatim>\<open>PosixFixDir\<close>, whose source is not at hand, and the clock.
  \<open>None\<close> is a failure.
\<close>

record Env =
  DxDescribeFolder :: "remote_call list \<Rightarrow> string \<Rightarrow> string \<Rightarrow> DxFolder option"
  PosixFixDir :: "DxFolder \<Rightarrow> PosixDir option"
  DxFileNew :: "remote_call list \<Rightarrow> string \<Rightarrow> string \<Rightarrow> string \<Rightarrow> string option"
  nowSeconds :: int

definition boolToInt :: "bool \<Rightarrow> int" where
  "boolToInt b = (if b then 1 else 0)"

subsection \<open>Statements as text\<close>

text \<open>
  \<^verbatim>\<open>'%s'\<close> of a format string: the argument between two single quotes, unchanged.
  \<^verbatim>\<open>%d\<close> is the decimal text of the number.
\<close>

definition squote :: char where
  "squote = CHR 0x27"

definition quoted :: "string \<Rightarrow> string" where
  "quoted s = [squote] @ s @ [squote]"

function showDigits :: "int \<Rightarrow> string" where
  "showDigits n =
     (if n < 10 then [char_of (48 + n)]
      else showDigits (n div 10) @ [char_of (48 + n mod 10)])"
  by pat_completeness auto
termination by (relation "measure nat") auto

definition showInt :: "int \<Rightarrow> string" where
  "showInt i = (if i < 0 then CHR ''-'' # showDigits (- i) else showDigits i)"

text \<open>
  The tokens of a statement. White space is blank, tab, line feed, form feed and
  carriage return; a word is made of letters, digits and underscores and starts with a
  letter or an underscore; a string literal runs from a single quote to the next single
  quote that is not doubled, a doubled quote standing for one quote of the value; a
  comment runs from \<^verbatim>\<open>--\<close> to the end of the line. Every character that has no rule
  here (an operator, a double quote, a NUL, a byte that is not ASCII outside a string
  literal, the start of a number that is not a plain integer or of a blob literal) leads
  to the mode \<open>Bad\<close>, from which nothing is read any more.
\<close>

definition isSpace :: "char \<Rightarrow> bool" where
  "isSpace c = (c \<in> set [CHR '' '', CHR 0x09, CHR 0x0A, CHR 0x0C, CHR 0x0D])"

definition isDigit :: "char \<Rightarrow> bool" where
  "isDigit c = (let n = (of_char c :: int) in 48 \<le> n \<and> n \<le> 57)"

definition isAlpha :: "char \<Rightarrow> bool" where
  "isAlpha c =
     (let n = (of_char c :: int)
      in (65 \<le> n \<and> n \<le> 90) \<or> (97 \<le> n \<and> n \<le> 122) \<or> n = 95)"

definition isSym :: "char \<Rightarrow> bool" where
  "isSym c = (c \<in> set '',();=.'')"

definition intOfDigits :: "string \<Rightarrow> int" where
  "intOfDigits ds = foldl (\<lambda>n c. 10 * n + (of_char c - 48)) 0 ds"

datatype token = TStr string | TNum int | TWord string | TSym char

datatype lexmode =
  Normal | InStr string | AfterQuote string | InNum string | InWord string
| AfterDash | InComment | Bad

text \<open>
  One character in the mode \<open>Normal\<close>; \<open>toks\<close> are the tokens read so far, last one
  first, and the accumulators of the other modes hold their characters last one first.
\<close>

definition normalStep :: "token list \<Rightarrow> char \<Rightarrow> lexmode \<times> token list" where
  "normalStep toks c =
     (if isSpace c then (Normal, toks)
      else if c = squote then (InStr [], toks)
      else if isDigit c then (InNum [c], toks)
      else if isAlpha c then (InWord [c], toks)
      else if c = CHR ''-'' then (AfterDash, toks)
      else if isSym c then (Normal, TSym c # toks)
      else (Bad, toks))"

fun lexStep :: "lexmode \<times> token list \<Rightarrow> char \<Rightarrow> lexmode \<times> token list" where
  "lexStep (Normal, toks) c = normalStep toks c"
| "lexStep (InStr acc, toks) c =
     (if c = squote then (AfterQuote acc, toks)
      else if c = CHR 0x00 then (Bad, toks)
      else (InStr (c # acc), toks))"
| "lexStep (AfterQuote acc, toks) c =
     (if c = squote then (InStr (c # acc), toks)
      else normalStep (TStr (rev acc) # toks) c)"
| "lexStep (InNum acc, toks) c =
     (if isDigit c then (InNum (c # acc), toks)
      else if isAlpha c \<or> c = CHR ''.'' then (Bad, toks)
      else normalStep (TNum (intOfDigits (rev acc)) # toks) c)"
| "lexStep (InWord acc, toks) c =
     (if isAlpha c \<or> isDigit c then (InWord (c # acc), toks)
      else if c = squote \<and> (acc = ''x'' \<or> acc = ''X'') then (Bad, toks)
      else normalStep (TWord (rev acc) # toks) c)"
| "lexStep (AfterDash, toks) c =
     (if c = CHR ''-'' then (InComment, toks) else (Bad, toks))"
| "lexStep (InComment, toks) c =
     (if c = CHR 0x0A then (Normal, toks)
      else if c = CHR 0x00 then (Bad, toks)
      else (InComment, toks))"
| "lexStep (Bad, toks) c = (Bad, toks)"

datatype lexres = LexTokens "token list" | LexUnterminated "token list" | LexBad

fun lexEnd :: "lexmode \<times> token list \<Rightarrow> lexres" where
  "lexEnd (Normal, toks) = LexTokens (rev toks)"
| "lexEnd (InComment, toks) = LexTokens (rev toks)"
| "lexEnd (AfterQuote acc, toks) = LexTokens (rev (TStr (rev acc) # toks))"
| "lexEnd (InNum acc, toks) = LexTokens (rev (TNum (intOfDigits (rev acc)) # toks))"
| "lexEnd (InWord acc, toks) = LexTokens (rev (TWord (rev acc) # toks))"
| "lexEnd (InStr acc, toks) = LexUnterminated (rev toks)"
| "lexEnd (AfterDash, toks) = LexBad"
| "lexEnd (Bad, toks) = LexBad"

definition lexSql :: "string \<Rightarrow> lexres" where
  "lexSql stmt = lexEnd (foldl lexStep (Normal, []) stmt)"

text \<open>
  The shape of a statement: its words and punctuation, with a place for a value where
  it has a literal. \<open>sqlArgs pattern stmt\<close> reads \<open>stmt\<close> as the statement \<open>pattern\<close>
  (the same format string with neutral arguments) and gives the literals found in the
  places of the values. The semicolon that ends the statement may be missing.
\<close>

datatype shape = SWord string | SSym char | SVal

fun tokenShape :: "token \<Rightarrow> shape" where
  "tokenShape (TStr s) = SVal"
| "tokenShape (TNum n) = SVal"
| "tokenShape (TWord w) = SWord w"
| "tokenShape (TSym c) = SSym c"

definition shapeOf :: "string \<Rightarrow> shape list" where
  "shapeOf pattern =
     (case lexSql pattern of LexTokens toks \<Rightarrow> map tokenShape toks | _ \<Rightarrow> [])"

fun matchShape :: "shape list \<Rightarrow> token list \<Rightarrow> token list option" where
  "matchShape [] [] = Some []"
| "matchShape [SSym c] [] = (if c = CHR '';'' then Some [] else None)"
| "matchShape (SWord w # sh) (TWord w' # ts) = (if w = w' then matchShape sh ts else None)"
| "matchShape (SSym c # sh) (TSym c' # ts) = (if c = c' then matchShape sh ts else None)"
| "matchShape (SVal # sh) (TStr s # ts) = map_option (Cons (TStr s)) (matchShape sh ts)"
| "matchShape (SVal # sh) (TNum n # ts) = map_option (Cons (TNum n)) (matchShape sh ts)"
| "matchShape _ _ = None"

definition sqlArgs :: "string \<Rightarrow> string \<Rightarrow> error + token list" where
  "sqlArgs pattern stmt =
     (case lexSql stmt of
        LexTokens toks \<Rightarrow>
          (case matchShape (shapeOf pattern) toks of
             Some vs \<Rightarrow> Inr vs
           | None \<Rightarrow> Inl Unmodelled)
      | LexUnterminated toks \<Rightarrow>
          (if TSym CHR '';'' \<in> set toks then Inl Unmodelled else Inl SqlError)
      | LexBad \<Rightarrow> Inl Unmodelled)"

text \<open>
  The value a column stores for a literal, as the code reads it back.
  \<^item> A column declared \<^verbatim>\<open>text\<close> keeps a string as it is and stores an integer as its
    decimal text.
  \<^item> A column declared \<^verbatim>\<open>int\<close> or \<^verbatim>\<open>bigint\<close> stores an integer, and a string that is
    the decimal text of a 64-bit integer as that integer; any other string is not
    modelled.
  \<^item> The column \<^verbatim>\<open>inline_data\<close> is declared \<^verbatim>\<open>string\<close>, which is none of the type names
    of sqlite and gives the column numeric affinity: a string of digits is stored as the
    integer it denotes and read back as the decimal text of that integer; a string that
    is empty or whose first character after white space is neither a digit, a sign nor
    a dot is kept as it is; any other string (a number in another notation) is not
    modelled.
\<close>

definition int64Range :: "int \<Rightarrow> bool" where
  "int64Range v = (- (2 ^ 63) \<le> v \<and> v < 2 ^ 63)"

definition intOfText :: "string \<Rightarrow> int option" where
  "intOfText s =
     (case s of
        [] \<Rightarrow> None
      | c # ds \<Rightarrow>
          (if c = CHR ''-'' then
             (if ds \<noteq> [] \<and> list_all isDigit ds \<and> int64Range (- intOfDigits ds)
              then Some (- intOfDigits ds) else None)
           else if list_all isDigit s \<and> int64Range (intOfDigits s)
           then Some (intOfDigits s) else None))"

fun textOf :: "token \<Rightarrow> string option" where
  "textOf (TStr s) = Some s"
| "textOf (TNum n) = (if int64Range n then Some (showDigits n) else None)"
| "textOf _ = None"

fun intOf :: "token \<Rightarrow> int option" where
  "intOf (TStr s) = intOfText s"
| "intOf (TNum n) = (if int64Range n then Some n else None)"
| "intOf _ = None"

fun numericOf :: "token \<Rightarrow> string option" where
  "numericOf (TStr s) =
     (case dropWhile (\<lambda>c. isSpace c \<or> c = CHR 0x0B) s of
        [] \<Rightarrow> Some s
      | c # _ \<Rightarrow>
          (if isDigit c \<or> c \<in> set ''+-.'' then
             (if list_all isDigit s \<and> int64Range (intOfDigits s)
              then Some (showDigits (intOfDigits s)) else None)
           else Some s))"
| "numericOf (TNum n) = (if int64Range n then Some (showDigits n) else None)"
| "numericOf _ = None"

text \<open>A literal compared with a \<^verbatim>\<open>text\<close> column in a \<^verbatim>\<open>WHERE\<close> clause.\<close>

fun whereText :: "token \<Rightarrow> string option" where
  "whereText (TStr s) = Some s"
| "whereText _ = None"

subsection \<open>The statements of the metadata database\<close>

text \<open>
  The format strings of the code with their arguments; a run of white space of the Go
  literal is written as one blank.
\<close>

definition sqlSelectDataObjectById :: "string \<Rightarrow> string" where
  "sqlSelectDataObjectById fId =
     '' SELECT inode,nlink FROM data_objects WHERE id = '' @ quoted fId @ '';''"

definition sqlInsertDataObject ::
  "int \<Rightarrow> string \<Rightarrow> string \<Rightarrow> int \<Rightarrow> int \<Rightarrow> int \<Rightarrow> int \<Rightarrow> int \<Rightarrow> string \<Rightarrow> string" where
  "sqlInsertDataObject kind objId projId inode sz ctime mtime nlink inlineData =
     '' INSERT INTO data_objects VALUES ('' @ quoted (showInt kind) @ '', '' @ quoted objId
       @ '', '' @ quoted projId @ '', '' @ quoted (showInt inode) @ '', ''
       @ quoted (showInt sz) @ '', '' @ quoted (showInt ctime) @ '', ''
       @ quoted (showInt mtime) @ '', '' @ quoted (showInt nlink) @ '', ''
       @ quoted inlineData @ '');''"

definition sqlUpdateNlink :: "int \<Rightarrow> string \<Rightarrow> string" where
  "sqlUpdateNlink nlink objId =
     '' UPDATE data_objects SET nlink = '' @ quoted (showInt nlink) @ '' WHERE id = ''
       @ quoted objId @ '';''"

definition sqlInsertNamespace :: "string \<Rightarrow> string \<Rightarrow> int \<Rightarrow> int \<Rightarrow> string" where
  "sqlInsertNamespace parentDir fname objType inode =
     '' INSERT INTO namespace VALUES ('' @ quoted parentDir @ '', '' @ quoted fname @ '', ''
       @ quoted (showInt objType) @ '', '' @ quoted (showInt inode) @ '');''"

definition sqlInsertDirectory ::
  "int \<Rightarrow> string \<Rightarrow> string \<Rightarrow> int \<Rightarrow> int \<Rightarrow> int \<Rightarrow> string" where
  "sqlInsertDirectory inode projId projFolder populated ctime mtime =
     '' INSERT INTO directories VALUES ('' @ quoted (showInt inode) @ '', '' @ quoted projId
       @ '', '' @ quoted projFolder @ '', '' @ quoted (showInt populated) @ '', ''
       @ quoted (showInt ctime) @ '', '' @ quoted (showInt mtime) @ '');''"

definition sqlSelectDirectory :: "string \<Rightarrow> string \<Rightarrow> int \<Rightarrow> string" where
  "sqlSelectDirectory parentDir basename objType =
     '' SELECT inode FROM namespace WHERE parent = '' @ quoted parentDir @ '' AND name = ''
       @ quoted basename @ '' AND obj_type = '' @ quoted (showInt objType) @ '';''"

definition sqlSelectName :: "string \<Rightarrow> string \<Rightarrow> string" where
  "sqlSelectName dirFullName dirOrFileName =
     '' SELECT obj_type,inode FROM namespace WHERE parent = '' @ quoted dirFullName
       @ '' AND name = '' @ quoted dirOrFileName @ '';''"

definition sqlSelectSubdirs :: "string \<Rightarrow> int \<Rightarrow> string" where
  "sqlSelectSubdirs dirFullName objType =
     '' SELECT directories.inode, directories.proj_id, namespace.name, directories.ctime, directories.mtime FROM directories JOIN namespace ON directories.inode = namespace.inode WHERE namespace.parent = ''
       @ quoted dirFullName @ '' AND namespace.obj_type = '' @ quoted (showInt objType)
       @ ''; ''"

definition sqlSelectFiles :: "string \<Rightarrow> int \<Rightarrow> string" where
  "sqlSelectFiles dirFullName objType =
     '' SELECT data_objects.kind,data_objects.id,data_objects.proj_id,data_objects.inode,data_objects.size,data_objects.ctime,data_objects.mtime,data_objects.nlink,data_objects.inline_data,namespace.name FROM data_objects JOIN namespace ON data_objects.inode = namespace.inode WHERE namespace.parent = ''
       @ quoted dirFullName @ '' AND namespace.obj_type = '' @ quoted (showInt objType)
       @ ''; ''"

text \<open>The rows that the values of an \<^verbatim>\<open>INSERT\<close> make, column by column.\<close>

definition dataObjectRow :: "token list \<Rightarrow> data_object_row option" where
  "dataObjectRow vs =
     (case vs of
        [v1, v2, v3, v4, v5, v6, v7, v8, v9] \<Rightarrow>
          do {
            kind \<leftarrow> intOf v1;
            objId \<leftarrow> textOf v2;
            projId \<leftarrow> textOf v3;
            inode \<leftarrow> intOf v4;
            sz \<leftarrow> intOf v5;
            ctime \<leftarrow> intOf v6;
            mtime \<leftarrow> intOf v7;
            nlink \<leftarrow> intOf v8;
            inlineData \<leftarrow> numericOf v9;
            Some \<lparr>do_kind = kind, do_id = objId, do_proj_id = projId, do_inode = inode,
                  do_size = sz, do_ctime = ctime, do_mtime = mtime, do_nlink = nlink,
                  do_inline_data = inlineData\<rparr>
          }
      | _ \<Rightarrow> None)"

definition namespaceRow :: "token list \<Rightarrow> namespace_row option" where
  "namespaceRow vs =
     (case vs of
        [v1, v2, v3, v4] \<Rightarrow>
          do {
            parent \<leftarrow> textOf v1;
            name \<leftarrow> textOf v2;
            objType \<leftarrow> intOf v3;
            inode \<leftarrow> intOf v4;
            Some \<lparr>ns_parent = parent, ns_name = name, ns_obj_type = objType,
                  ns_inode = inode\<rparr>
          }
      | _ \<Rightarrow> None)"

definition directoryRow :: "token list \<Rightarrow> directory_row option" where
  "directoryRow vs =
     (case vs of
        [v1, v2, v3, v4, v5, v6] \<Rightarrow>
          do {
            inode \<leftarrow> intOf v1;
            projId \<leftarrow> textOf v2;
            projFolder \<leftarrow> textOf v3;
            populated \<leftarrow> intOf v4;
            ctime \<leftarrow> intOf v5;
            mtime \<leftarrow> intOf v6;
            Some \<lparr>dir_inode = inode, dir_proj_id = projId, dir_proj_folder = projFolder,
                  dir_populated = populated, dir_ctime = ctime, dir_mtime = mtime\<rparr>
          }
      | _ \<Rightarrow> None)"

text \<open>Adding a row to a table, with the primary key of the table.\<close>

definition data_objects_add :: "Db \<Rightarrow> data_object_row \<Rightarrow> error + Db" where
  "data_objects_add d r =
     (if do_inode r \<in> set (map do_inode (data_objects d)) then Inl SqlError
      else Inr (d\<lparr>data_objects := data_objects d @ [r]\<rparr>))"

definition namespace_add :: "Db \<Rightarrow> namespace_row \<Rightarrow> error + Db" where
  "namespace_add d r =
     (if (ns_parent r, ns_name r) \<in> set (map (\<lambda>x. (ns_parent x, ns_name x)) (namespace d))
      then Inl SqlError
      else Inr (d\<lparr>namespace := namespace d @ [r]\<rparr>))"

definition directories_add :: "Db \<Rightarrow> directory_row \<Rightarrow> error + Db" where
  "directories_add d r =
     (if dir_inode r \<in> set (map dir_inode (directories d)) then Inl SqlError
      else Inr (d\<lparr>directories := directories d @ [r]\<rparr>))"

text \<open>\<^verbatim>\<open>txn.Exec\<close> of the three \<^verbatim>\<open>INSERT\<close> statements and of the \<^verbatim>\<open>UPDATE\<close> of a link count.\<close>

definition insert_data_object ::
  "Db \<Rightarrow> int \<Rightarrow> string \<Rightarrow> string \<Rightarrow> int \<Rightarrow> int \<Rightarrow> int \<Rightarrow> int \<Rightarrow> int \<Rightarrow> string \<Rightarrow> error + Db" where
  "insert_data_object d kind objId projId inode sz ctime mtime nlink inlineData =
     (case sqlArgs (sqlInsertDataObject 0 [] [] 0 0 0 0 0 [])
             (sqlInsertDataObject kind objId projId inode sz ctime mtime nlink inlineData) of
        Inl e \<Rightarrow> Inl e
      | Inr vs \<Rightarrow>
          (case dataObjectRow vs of
             None \<Rightarrow> Inl Unmodelled
           | Some r \<Rightarrow> data_objects_add d r))"

definition insert_namespace :: "Db \<Rightarrow> string \<Rightarrow> string \<Rightarrow> int \<Rightarrow> int \<Rightarrow> error + Db" where
  "insert_namespace d parentDir fname objType inode =
     (case sqlArgs (sqlInsertNamespace [] [] 0 0)
             (sqlInsertNamespace parentDir fname objType inode) of
        Inl e \<Rightarrow> Inl e
      | Inr vs \<Rightarrow>
          (case namespaceRow vs of
             None \<Rightarrow> Inl Unmodelled
           | Some r \<Rightarrow> namespace_add d r))"

definition insert_directory ::
  "Db \<Rightarrow> int \<Rightarrow> string \<Rightarrow> string \<Rightarrow> int \<Rightarrow> int \<Rightarrow> int \<Rightarrow> error + Db" where
  "insert_directory d inode projId projFolder populated ctime mtime =
     (case sqlArgs (sqlInsertDirectory 0 [] [] 0 0 0)
             (sqlInsertDirectory inode projId projFolder populated ctime mtime) of
        Inl e \<Rightarrow> Inl e
      | Inr vs \<Rightarrow>
          (case directoryRow vs of
             None \<Rightarrow> Inl Unmodelled
           | Some r \<Rightarrow> directories_add d r))"

definition update_nlink :: "Db \<Rightarrow> int \<Rightarrow> string \<Rightarrow> error + Db" where
  "update_nlink d nlink objId =
     (case sqlArgs (sqlUpdateNlink 0 []) (sqlUpdateNlink nlink objId) of
        Inl e \<Rightarrow> Inl e
      | Inr vs \<Rightarrow>
          (case vs of
             [v1, v2] \<Rightarrow>
               (case (intOf v1, whereText v2) of
                  (Some n, Some i) \<Rightarrow>
                    Inr (d\<lparr>data_objects :=
                             map (\<lambda>r. if do_id r = i then r\<lparr>do_nlink := n\<rparr> else r)
                                 (data_objects d)\<rparr>)
                | _ \<Rightarrow> Inl Unmodelled)
           | _ \<Rightarrow> Inl Unmodelled))"

definition Rollback :: "Filesys \<Rightarrow> Filesys \<Rightarrow> Filesys" where
  "Rollback fs0 fs = fs\<lparr>db := db fs0\<rparr>"

definition allocInodeNum :: "Filesys \<Rightarrow> int \<times> Filesys" where
  "allocInodeNum fs =
     (let n = wrap64 (inodeCnt fs + 1) in (n, fs\<lparr>inodeCnt := n\<rparr>))"

definition lookupDataObjectInodeById :: "Filesys \<Rightarrow> string \<Rightarrow> error + (int \<times> int)" where
  "lookupDataObjectInodeById fs fId =
     (case sqlArgs (sqlSelectDataObjectById []) (sqlSelectDataObjectById fId) of
        Inl e \<Rightarrow> Inl e
      | Inr vs \<Rightarrow>
          (case vs of
             [v] \<Rightarrow>
               (case whereText v of
                  None \<Rightarrow> Inl Unmodelled
                | Some i \<Rightarrow>
                    (case filter (\<lambda>r. do_id r = i) (data_objects (db fs)) of
                       [] \<Rightarrow> Inr (InodeInvalid, 0)
                     | [r] \<Rightarrow> Inr (do_inode r, do_nlink r)
                     | _ \<Rightarrow> Inl Panic))
           | _ \<Rightarrow> Inl Unmodelled))"

definition createDataObject ::
  "Filesys \<Rightarrow> int \<Rightarrow> string \<Rightarrow> string \<Rightarrow> int \<Rightarrow> int \<Rightarrow> int \<Rightarrow> string \<Rightarrow> string \<Rightarrow> string
     \<Rightarrow> (error + int) \<times> Filesys" where
  "createDataObject fs kind projId objId sz ctime mtime parentDir fname inlineData =
     (case lookupDataObjectInodeById fs objId of
        Inl e \<Rightarrow> (Inl e, fs)
      | Inr (inode0, nlink) \<Rightarrow>
          (if inode0 = InodeInvalid then
             (let (inode, fs1) = allocInodeNum fs in
              case insert_data_object (db fs1) kind objId projId inode sz ctime mtime 1
                     inlineData of
                Inl e \<Rightarrow> (Inl e, fs1)
              | Inr db2 \<Rightarrow>
                  (case insert_namespace db2 parentDir fname nsDataObjType inode of
                     Inl e \<Rightarrow> (Inl e, fs1\<lparr>db := db2\<rparr>)
                   | Inr db3 \<Rightarrow> (Inr inode, fs1\<lparr>db := db3\<rparr>)))
           else
             (case update_nlink (db fs) (wrap64 (nlink + 1)) objId of
                Inl e \<Rightarrow> (Inl e, fs)
              | Inr db2 \<Rightarrow>
                  (case insert_namespace db2 parentDir fname nsDataObjType inode0 of
                     Inl e \<Rightarrow> (Inl e, fs\<lparr>db := db2\<rparr>)
                   | Inr db3 \<Rightarrow> (Inr inode0, fs\<lparr>db := db3\<rparr>)))))"

definition createEmptyDir ::
  "Filesys \<Rightarrow> string \<Rightarrow> string \<Rightarrow> int \<Rightarrow> int \<Rightarrow> string \<Rightarrow> bool \<Rightarrow> (error + int) \<times> Filesys" where
  "createEmptyDir fs projId projFolder ctime mtime dirPath populated =
     (case dirPath of
        [] \<Rightarrow> (Inl Panic, fs)
      | c # _ \<Rightarrow>
          (if c \<noteq> CHR ''/'' then (Inl Panic, fs)
           else
             (let (inode, fs1) = allocInodeNum fs;
                  (parentDir, basename) = splitPath dirPath
              in case insert_namespace (db fs1) parentDir basename nsDirType inode of
                   Inl e \<Rightarrow> (Inl e, fs1)
                 | Inr db2 \<Rightarrow>
                     (case insert_directory db2 inode projId projFolder
                             (boolToInt populated) ctime mtime of
                        Inl e \<Rightarrow> (Inl e, fs1\<lparr>db := db2\<rparr>)
                      | Inr db3 \<Rightarrow> (Inr inode, fs1\<lparr>db := db3\<rparr>)))))"

definition setDirectoryToPopulated :: "Filesys \<Rightarrow> int \<Rightarrow> (error + unit) \<times> Filesys" where
  "setDirectoryToPopulated fs dinode =
     (Inr (),
      fs\<lparr>db := (db fs)\<lparr>directories :=
              map (\<lambda>r. if dir_inode r = dinode then r\<lparr>dir_populated := 1\<rparr> else r)
                  (directories (db fs))\<rparr>\<rparr>)"

text \<open>The two loops of \<^verbatim>\<open>populateDir\<close>; each stops at the first error.\<close>

fun populateDir_objects ::
  "Filesys \<Rightarrow> string \<Rightarrow> DxDescribeDataObject list \<Rightarrow> (error + unit) \<times> Filesys" where
  "populateDir_objects fs dirPath [] = (Inr (), fs)"
| "populateDir_objects fs dirPath (ob # obs) =
     (let kind = kindOfFile ob;
          inlineData = inlineDataOfFile kind ob
      in case createDataObject fs kind (dx_ProjId ob) (dx_Id ob) (dx_Size ob)
                (dx_CtimeSeconds ob) (dx_MtimeSeconds ob) dirPath (dx_Name ob) inlineData of
           (Inl e, fs1) \<Rightarrow> (Inl e, fs1)
         | (Inr _, fs1) \<Rightarrow> populateDir_objects fs1 dirPath obs)"

fun populateDir_subdirs ::
  "Filesys \<Rightarrow> string \<Rightarrow> string \<Rightarrow> int \<Rightarrow> int \<Rightarrow> string \<Rightarrow> string list
     \<Rightarrow> (error + unit) \<times> Filesys" where
  "populateDir_subdirs fs projId projFolder ctime mtime dirPath [] = (Inr (), fs)"
| "populateDir_subdirs fs projId projFolder ctime mtime dirPath (subDirName # rest) =
     (case createEmptyDir fs projId (Clean (projFolder @ ''/'' @ subDirName)) ctime mtime
             (Clean (dirPath @ ''/'' @ subDirName)) False of
        (Inl e, fs1) \<Rightarrow> (Inl e, fs1)
      | (Inr _, fs1) \<Rightarrow> populateDir_subdirs fs1 projId projFolder ctime mtime dirPath rest)"

definition populateDir ::
  "Filesys \<Rightarrow> int \<Rightarrow> string \<Rightarrow> string \<Rightarrow> int \<Rightarrow> int \<Rightarrow> string
     \<Rightarrow> DxDescribeDataObject list \<Rightarrow> string list \<Rightarrow> (error + unit) \<times> Filesys" where
  "populateDir fs dinode projId projFolder ctime mtime dirPath dxObjs subdirs =
     (case populateDir_objects fs dirPath dxObjs of
        (Inl e, fs1) \<Rightarrow> (Inl e, fs1)
      | (Inr _, fs1) \<Rightarrow>
          (case populateDir_subdirs fs1 projId projFolder ctime mtime dirPath subdirs of
             (Inl e, fs2) \<Rightarrow> (Inl e, fs2)
           | (Inr _, fs2) \<Rightarrow> (Inr (), snd (setDirectoryToPopulated fs2 dinode))))"

text \<open>The loop that approximates the times of the directory from its data objects.\<close>

fun approxTimes :: "int \<Rightarrow> int \<Rightarrow> DxDescribeDataObject list \<Rightarrow> int \<times> int" where
  "approxTimes ctimeApprox mtimeApprox [] = (ctimeApprox, mtimeApprox)"
| "approxTimes ctimeApprox mtimeApprox (f # fs) =
     approxTimes (MinInt64 ctimeApprox (dx_CtimeSeconds f))
                 (MaxInt64 mtimeApprox (dx_MtimeSeconds f)) fs"

text \<open>The loop over the faux subdirectories, in the order the map is traversed.\<close>

fun fauxSubdirs_loop ::
  "Filesys \<Rightarrow> string \<Rightarrow> int \<Rightarrow> int \<Rightarrow> string
     \<Rightarrow> (string \<times> DxDescribeDataObject list) list \<Rightarrow> (error + unit) \<times> Filesys" where
  "fauxSubdirs_loop fs projId ctimeApprox mtimeApprox dirFullName [] = (Inr (), fs)"
| "fauxSubdirs_loop fs projId ctimeApprox mtimeApprox dirFullName ((dName, fauxFiles) # rest) =
     (let fauxDirPath = Clean (dirFullName @ ''/'' @ dName)
      in case createEmptyDir fs projId [] ctimeApprox mtimeApprox fauxDirPath True of
           (Inl e, fs1) \<Rightarrow> (Inl e, fs1)
         | (Inr fauxDirInode, fs1) \<Rightarrow>
             (case populateDir fs1 fauxDirInode projId [] ctimeApprox mtimeApprox
                     fauxDirPath fauxFiles [] of
                (Inl e, fs2) \<Rightarrow> (Inl e, fs2)
              | (Inr _, fs2) \<Rightarrow>
                  fauxSubdirs_loop fs2 projId ctimeApprox mtimeApprox dirFullName rest))"

definition directoryReadFromDNAx ::
  "Env \<Rightarrow> Filesys \<Rightarrow> int \<Rightarrow> string \<Rightarrow> string \<Rightarrow> int \<Rightarrow> int \<Rightarrow> string
     \<Rightarrow> (error + unit) \<times> Filesys" where
  "directoryReadFromDNAx env fs dinode projId projFolder ctime mtime dirFullName =
     (let fs1 = fs\<lparr>calls := calls fs @ [DescribeFolder projId projFolder]\<rparr>
      in case DxDescribeFolder env (calls fs) projId projFolder of
           None \<Rightarrow> (Inl RemoteError, fs1)
         | Some dxDir \<Rightarrow>
             (let (ctimeApprox, mtimeApprox) = approxTimes ctime mtime (dxf_dataObjects dxDir)
              in case PosixFixDir env dxDir of
                   None \<Rightarrow> (Inl FixupError, fs1)
                 | Some posixDir \<Rightarrow>
                     (case populateDir fs1 dinode projId projFolder ctimeApprox mtimeApprox
                             dirFullName (pd_dataObjects posixDir) (pd_subdirs posixDir) of
                        (Inl e, fs2) \<Rightarrow> (Inl e, Rollback fs1 fs2)
                      | (Inr _, fs2) \<Rightarrow>
                          (case fauxSubdirs_loop fs2 projId ctimeApprox mtimeApprox
                                  dirFullName (pd_fauxSubdirs posixDir) of
                             (Inl e, fs3) \<Rightarrow> (Inl e, Rollback fs1 fs3)
                           | (Inr _, fs3) \<Rightarrow> (Inr (), fs3)))))"

subsection \<open>Looking directories up\<close>

text \<open>
  \<^verbatim>\<open>directoryLookup\<close> panics when a query fails; the second query has a number as its
  only argument.
\<close>

definition directoryLookup :: "Filesys \<Rightarrow> string \<Rightarrow> error + (int \<times> DirInfo option)" where
  "directoryLookup fs dirPath =
     (let (parentDir, basename) = splitPath dirPath
      in case sqlArgs (sqlSelectDirectory [] [] 0)
                (sqlSelectDirectory parentDir basename nsDirType) of
           Inl e \<Rightarrow> Inl (if e = SqlError then Panic else e)
         | Inr vs \<Rightarrow>
             (case vs of
                [v1, v2, v3] \<Rightarrow>
                  (case (whereText v1, whereText v2, intOf v3) of
                     (Some p, Some n, Some t) \<Rightarrow>
                       (case filter (\<lambda>r. ns_parent r = p \<and> ns_name r = n
                                           \<and> ns_obj_type r = t) (namespace (db fs)) of
                          [] \<Rightarrow> Inr (dirDoesNotExist, None)
                        | [r] \<Rightarrow>
                            (case filter (\<lambda>d. dir_inode d = ns_inode r)
                                    (directories (db fs)) of
                               [] \<Rightarrow> Inl Panic
                             | [d] \<Rightarrow>
                                 (let dInfo = \<lparr>di_inode = ns_inode r,
                                               di_projId = dir_proj_id d,
                                               di_projFolder = dir_proj_folder d,
                                               di_ctime = dir_ctime d,
                                               di_mtime = dir_mtime d\<rparr>
                                  in if dir_populated d = 0
                                     then Inr (dirExistsButNotPopulated, Some dInfo)
                                     else if dir_populated d = 1
                                     then Inr (dirExistAndPopulated, Some dInfo)
                                     else Inl Panic)
                             | _ \<Rightarrow> Inl Panic)
                        | _ \<Rightarrow> Inl Panic)
                   | _ \<Rightarrow> Inl Unmodelled)
              | _ \<Rightarrow> Inl Unmodelled))"

text \<open>
  \<^verbatim>\<open>directoryExists\<close>: the parent of the directory is populated first when it is not yet.
  A return code other than \<^verbatim>\<open>dirDoesNotExist\<close> always comes with a \<^verbatim>\<open>DirInfo\<close>; the
  branch for a missing one stands for the nil dereference.
\<close>

definition directoryExists ::
  "Env \<Rightarrow> Filesys \<Rightarrow> string \<Rightarrow> (error + (int \<times> DirInfo option)) \<times> Filesys" where
  "directoryExists env fs dirPath =
     (if dirPath = ''/'' then (directoryLookup fs dirPath, fs)
      else
        (let parentDir = Dir dirPath
         in case directoryLookup fs parentDir of
              Inl e \<Rightarrow> (Inl e, fs)
            | Inr (retCode, parentDirInfo) \<Rightarrow>
                (if retCode = dirDoesNotExist then (Inl Panic, fs)
                 else if retCode = dirExistsButNotPopulated then
                   (if parentDir = ''/'' then (Inl Panic, fs)
                    else
                      (case parentDirInfo of
                         None \<Rightarrow> (Inl Panic, fs)
                       | Some pInfo \<Rightarrow>
                           (case directoryReadFromDNAx env fs (di_inode pInfo)
                                   (di_projId pInfo) (di_projFolder pInfo)
                                   (di_ctime pInfo) (di_mtime pInfo) parentDir of
                              (Inl e, fs1) \<Rightarrow> (Inl e, fs1)
                            | (Inr _, fs1) \<Rightarrow> (directoryLookup fs1 dirPath, fs1))))
                 else (directoryLookup fs dirPath, fs))))"

text \<open>
  \<^verbatim>\<open>directoryReadAllEntries\<close>: the two joins, as lists of (name, node) in row order; the
  Go maps they fill are keyed by the name. A failing query is returned as an error.
\<close>

definition whereParentType :: "token list \<Rightarrow> (string \<times> int) option" where
  "whereParentType vs =
     (case vs of
        [v1, v2] \<Rightarrow> do { p \<leftarrow> whereText v1; t \<leftarrow> intOf v2; Some (p, t) }
      | _ \<Rightarrow> None)"

definition directoryReadAllEntries ::
  "Filesys \<Rightarrow> string \<Rightarrow> error + ((string \<times> FileNode) list \<times> (string \<times> DirNode) list)" where
  "directoryReadAllEntries fs dirFullName =
     (case sqlArgs (sqlSelectSubdirs [] 0) (sqlSelectSubdirs dirFullName nsDirType) of
        Inl e \<Rightarrow> Inl e
      | Inr vs \<Rightarrow>
          (case whereParentType vs of
             None \<Rightarrow> Inl Unmodelled
           | Some (p, t) \<Rightarrow>
               (let subdirs =
                      concat (map (\<lambda>d. map (\<lambda>n. (ns_name n,
                                \<lparr>d_Parent = dirFullName, d_Dname = ns_name n,
                                 d_FullPath = Join dirFullName (ns_name n),
                                 d_Inode = dir_inode d,
                                 d_Ctime = secondsToTime (dir_ctime d),
                                 d_Mtime = secondsToTime (dir_mtime d),
                                 d_Mode = 0, d_Uid = 0, d_Gid = 0, d_ProjId = [],
                                 d_ProjFolder = [], d_Populated = False\<rparr>))
                              (filter (\<lambda>n. dir_inode d = ns_inode n \<and> ns_parent n = p
                                            \<and> ns_obj_type n = t) (namespace (db fs))))
                         (directories (db fs)))
                in case sqlArgs (sqlSelectFiles [] 0)
                          (sqlSelectFiles dirFullName nsDataObjType) of
                     Inl e \<Rightarrow> Inl e
                   | Inr ws \<Rightarrow>
                       (case whereParentType ws of
                          None \<Rightarrow> Inl Unmodelled
                        | Some (p', t') \<Rightarrow>
                            (let files =
                                   concat (map (\<lambda>r. map (\<lambda>n. (ns_name n,
                                             \<lparr>f_Kind = do_kind r, f_Id = do_id r,
                                              f_ProjId = do_proj_id r,
                                              f_Name = ns_name n, f_Size = do_size r,
                                              f_Inode = do_inode r,
                                              f_Ctime = secondsToTime (do_ctime r),
                                              f_Mtime = secondsToTime (do_mtime r),
                                              f_Mode = 0, f_Nlink = do_nlink r,
                                              f_Uid = 0, f_Gid = 0,
                                              f_InlineData = do_inline_data r\<rparr>))
                                           (filter (\<lambda>n. do_inode r = ns_inode n
                                                         \<and> ns_parent n = p'
                                                         \<and> ns_obj_type n = t')
                                                   (namespace (db fs))))
                                      (data_objects (db fs)))
                             in Inr (files, subdirs))))))"

definition MetadataDbReadDirAll ::
  "Env \<Rightarrow> Filesys \<Rightarrow> string
     \<Rightarrow> (error + ((string \<times> FileNode) list \<times> (string \<times> DirNode) list)) \<times> Filesys" where
  "MetadataDbReadDirAll env fs dirFullName =
     (case directoryExists env fs dirFullName of
        (Inl e, fs1) \<Rightarrow> (Inl e, fs1)
      | (Inr (retCode, dInfo), fs1) \<Rightarrow>
          (if retCode = dirDoesNotExist then (Inl ENOENT, fs1)
           else if retCode = dirExistsButNotPopulated then
             (case dInfo of
                None \<Rightarrow> (Inl Panic, fs1)
              | Some di \<Rightarrow>
                  (case directoryReadFromDNAx env fs1 (di_inode di) (di_projId di)
                          (di_projFolder di) (di_ctime di) (di_mtime di) dirFullName of
                     (Inl e, fs2) \<Rightarrow> (Inl e, fs2)
                   | (Inr _, fs2) \<Rightarrow> (directoryReadAllEntries fs2 dirFullName, fs2)))
           else if retCode = dirExistAndPopulated then
             (directoryReadAllEntries fs1 dirFullName, fs1)
           else (Inl Panic, fs1)))"

subsection \<open>Looking a name up in a directory\<close>

definition lookupDir :: "Filesys \<Rightarrow> string \<Rightarrow> string \<Rightarrow> int \<Rightarrow> error + DirNode" where
  "lookupDir fs dirFullName dname dinode =
     (case filter (\<lambda>d. dir_inode d = dinode) (directories (db fs)) of
        [] \<Rightarrow> Inl Panic
      | [d] \<Rightarrow>
          Inr \<lparr>d_Parent = dirFullName, d_Dname = dname,
               d_FullPath = Join dirFullName dname, d_Inode = dinode,
               d_Ctime = secondsToTime (dir_ctime d),
               d_Mtime = secondsToTime (dir_mtime d),
               d_Mode = 0, d_Uid = 0, d_Gid = 0, d_ProjId = [],
               d_ProjFolder = [], d_Populated = False\<rparr>
      | _ \<Rightarrow> Inl Panic)"

definition lookupDataObjectShouldExist ::
  "Filesys \<Rightarrow> string \<Rightarrow> string \<Rightarrow> int \<Rightarrow> error + FileNode" where
  "lookupDataObjectShouldExist fs dirFullName oname inode =
     (case filter (\<lambda>r. do_inode r = inode) (data_objects (db fs)) of
        [] \<Rightarrow> Inl Panic
      | [r] \<Rightarrow>
          Inr \<lparr>f_Kind = do_kind r, f_Id = do_id r, f_ProjId = do_proj_id r,
               f_Name = oname, f_Size = do_size r, f_Inode = inode,
               f_Ctime = secondsToTime (do_ctime r),
               f_Mtime = secondsToTime (do_mtime r),
               f_Mode = 0, f_Nlink = do_nlink r, f_Uid = 0, f_Gid = 0,
               f_InlineData = do_inline_data r\<rparr>
      | _ \<Rightarrow> Inl Panic)"

definition fastLookup :: "Filesys \<Rightarrow> string \<Rightarrow> string \<Rightarrow> error + Node" where
  "fastLookup fs dirFullName dirOrFileName =
     (case sqlArgs (sqlSelectName [] []) (sqlSelectName dirFullName dirOrFileName) of
        Inl e \<Rightarrow> Inl e
      | Inr vs \<Rightarrow>
          (case vs of
             [v1, v2] \<Rightarrow>
               (case (whereText v1, whereText v2) of
                  (Some p, Some n) \<Rightarrow>
                    (case filter (\<lambda>r. ns_parent r = p \<and> ns_name r = n)
                            (namespace (db fs)) of
                       [] \<Rightarrow> Inl ENOENT
                     | [r] \<Rightarrow>
                         (if ns_obj_type r = nsDirType then
                            (case lookupDir fs dirFullName dirOrFileName (ns_inode r) of
                               Inl e \<Rightarrow> Inl e | Inr d \<Rightarrow> Inr (NDir d))
                          else if ns_obj_type r = nsDataObjType then
                            (case lookupDataObjectShouldExist fs dirFullName dirOrFileName
                                    (ns_inode r) of
                               Inl e \<Rightarrow> Inl e | Inr f \<Rightarrow> Inr (NFile f))
                          else Inl Panic)
                     | _ \<Rightarrow> Inl Panic)
                | _ \<Rightarrow> Inl Unmodelled)
           | _ \<Rightarrow> Inl Unmodelled))"

definition MetadataDbLookupInDir ::
  "Env \<Rightarrow> Filesys \<Rightarrow> string \<Rightarrow> string \<Rightarrow> (error + Node) \<times> Filesys" where
  "MetadataDbLookupInDir env fs parentDir dirOrFileName =
     (case directoryExists env fs parentDir of
        (Inl e, fs1) \<Rightarrow> (Inl e, fs1)
      | (Inr (retCode, _), fs1) \<Rightarrow>
          (if retCode = dirDoesNotExist then (Inl ENOENT, fs1)
           else if retCode = dirExistsButNotPopulated then
             (case MetadataDbReadDirAll env fs1 parentDir of
                (Inl e, fs2) \<Rightarrow> (Inl e, fs2)
              | (Inr _, fs2) \<Rightarrow> (fastLookup fs2 parentDir dirOrFileName, fs2))
           else if retCode = dirExistAndPopulated then
             (fastLookup fs1 parentDir dirOrFileName, fs1)
           else (Inl Panic, fs1)))"

subsection \<open>Creating a file\<close>

text \<open>
  \<^verbatim>\<open>projectIdAndFolder\<close>: the loop over the map \<^verbatim>\<open>baseDir2ProjectId\<close> returns at the
  first base directory that is a prefix of the directory name, and panics after the loop.
\<close>

fun projectIdAndFolder_loop :: "(string \<times> string) list \<Rightarrow> string \<Rightarrow> error + (string \<times> string)" where
  "projectIdAndFolder_loop [] dirname = Inl Panic"
| "projectIdAndFolder_loop ((baseDir, projId) # rest) dirname =
     (if HasPrefix dirname baseDir then
        (let folderInProject = drop (length baseDir) dirname;
             folderInProject = (if \<not> HasPrefix folderInProject ''/''
                                then ''/'' @ folderInProject else folderInProject)
         in Inr (projId, folderInProject))
      else projectIdAndFolder_loop rest dirname)"

definition projectIdAndFolder :: "Filesys \<Rightarrow> string \<Rightarrow> error + (string \<times> string)" where
  "projectIdAndFolder fs dirname = projectIdAndFolder_loop (baseDir2ProjectId fs) dirname"

definition CreateFile ::
  "Env \<Rightarrow> Filesys \<Rightarrow> DirNode \<Rightarrow> string \<Rightarrow> string \<Rightarrow> (error + FileNode) \<times> Filesys" where
  "CreateFile env fs dir fname localPath =
     (case MetadataDbLookupInDir env fs (d_FullPath dir) fname of
        (Inr _, fs1) \<Rightarrow> (Inl EEXIST, fs1)
      | (Inl e, fs1) \<Rightarrow>
          (if e \<noteq> ENOENT then (Inl e, fs1)
           else
             (case projectIdAndFolder fs1 (d_FullPath dir) of
                Inl e \<Rightarrow> (Inl e, fs1)
              | Inr (projId, folder) \<Rightarrow>
                  (let fs2 = fs1\<lparr>calls := calls fs1 @ [FileNew projId fname folder]\<rparr>
                   in case DxFileNew env (calls fs1) projId fname folder of
                        None \<Rightarrow> (Inl RemoteError, fs2)
                      | Some fileId \<Rightarrow>
                          (let now = nowSeconds env
                           in case createDataObject fs2 FK_Regular projId fileId 0 now now
                                     (d_FullPath dir) fname localPath of
                                (Inl e, fs3) \<Rightarrow> (Inl e, Rollback fs2 fs3)
                              | (Inr inode, fs3) \<Rightarrow>
                                  (Inr \<lparr>f_Kind = FK_Regular, f_Id = fileId, f_ProjId = projId,
                                        f_Name = fname, f_Size = 0, f_Inode = inode,
                                        f_Ctime = secondsToTime now,
                                        f_Mtime = secondsToTime now,
                                        f_Mode = 0, f_Nlink = 1, f_Uid = 0, f_Gid = 0,
                                        f_InlineData = localPath\<rparr>, fs3))))))"

subsection \<open>Notions used to state the properties\<close>

text \<open>The primary key of a namespace row.\<close>

definition ns_key :: "namespace_row \<Rightarrow> string \<times> string" where
  "ns_key r = (ns_parent r, ns_name r)"

text \<open>
  The link-count invariant of the specification: the \<^verbatim>\<open>nlink\<close> column of a data object
  is the number of namespace rows that carry its inode.
\<close>

definition link_count :: "Db \<Rightarrow> int \<Rightarrow> int" where
  "link_count d i = int (length (filter (\<lambda>n. ns_inode n = i) (namespace d)))"

definition link_inv :: "Db \<Rightarrow> bool" where
  "link_inv d = list_all (\<lambda>r. do_nlink r = link_count d (do_inode r)) (data_objects d)"

text \<open>
  How the writes of the population code change the store: namespace rows are added
  under keys that were free, directory rows are added under inodes that were free, and
  the existing directory rows whose inode is in \<open>S\<close> get their \<^verbatim>\<open>populated\<close> column set;
  nothing else about an existing namespace or directory row changes.
\<close>

definition setpop :: "int set \<Rightarrow> directory_row \<Rightarrow> directory_row" where
  "setpop S r = (if dir_inode r \<in> S then r\<lparr>dir_populated := 1\<rparr> else r)"



subsection \<open>Concrete inputs\<close>

definition mkObj :: "string \<Rightarrow> string \<Rightarrow> DxDescribeDataObject" where
  "mkObj i l = \<lparr>dx_Id = i, dx_ProjId = ''project-1'', dx_Name = ''n'', dx_Size = 0,
               dx_CtimeSeconds = 0, dx_MtimeSeconds = 0, dx_SymlinkPath = l\<rparr>"

text \<open>A directory node as \<^verbatim>\<open>lookupDir\<close> builds it, with times 50 and 200.\<close>

definition dirSub :: DirNode where
  "dirSub = \<lparr>d_Parent = ''/proj'', d_Dname = ''sub'', d_FullPath = ''/proj/sub'',
             d_Inode = 4, d_Ctime = 50, d_Mtime = 200, d_Mode = 0, d_Uid = 0, d_Gid = 0,
             d_ProjId = [], d_ProjFolder = [], d_Populated = False\<rparr>"

text \<open>
  Two projects mounted side by side whose base directories are \<^verbatim>\<open>/proj1\<close> and
  \<^verbatim>\<open>/proj10\<close>, the map being traversed in this order.
\<close>

definition twoProjects :: "(string \<times> string) list" where
  "twoProjects = [(''/proj1'', ''project-A''), (''/proj10'', ''project-B'')]"

text \<open>
  A mount of one project: the root, populated, and the directory \<^verbatim>\<open>/proj\<close> of
  \<^verbatim>\<open>project-1\<close>, not yet populated, with times 100.
\<close>

definition opts0 :: Options where
  "opts0 = \<lparr>ReadOnly = False, Verbose = False, VerboseLevel = 0, opt_Uid = 0, opt_Gid = 0\<rparr>"

definition fs0 :: Filesys where
  "fs0 = \<lparr>options = opts0,
          db = \<lparr>data_objects = [],
                namespace =
                  [\<lparr>ns_parent = [], ns_name = ''/'', ns_obj_type = 1, ns_inode = 1\<rparr>,
                   \<lparr>ns_parent = ''/'', ns_name = ''proj'', ns_obj_type = 1, ns_inode = 2\<rparr>],
                directories =
                  [\<lparr>dir_inode = 1, dir_proj_id = [], dir_proj_folder = [],
                    dir_populated = 1, dir_ctime = 100, dir_mtime = 100\<rparr>,
                   \<lparr>dir_inode = 2, dir_proj_id = ''project-1'', dir_proj_folder = ''/'',
                    dir_populated = 0, dir_ctime = 100, dir_mtime = 100\<rparr>]\<rparr>,
          inodeCnt = 2,
          baseDir2ProjectId = [(''/proj'', ''project-1'')],
          calls = []\<rparr>"

definition info_proj :: DirInfo where
  "info_proj = \<lparr>di_inode = 2, di_projId = ''project-1'', di_projFolder = ''/'',
                di_ctime = 100, di_mtime = 100\<rparr>"

text \<open>
  The remote folder holds the file \<^verbatim>\<open>a.txt\<close> (created at 50, modified at 200), two
  files named \<^verbatim>\<open>data.bin\<close> and the subfolder \<^verbatim>\<open>sub\<close>; the fix-up moves the two
  homonyms into the faux subdirectory \<^verbatim>\<open>data.bin\<close>.
\<close>

definition objA :: DxDescribeDataObject where
  "objA = \<lparr>dx_Id = ''file-A'', dx_ProjId = ''project-1'', dx_Name = ''a.txt'', dx_Size = 10,
           dx_CtimeSeconds = 50, dx_MtimeSeconds = 200, dx_SymlinkPath = []\<rparr>"

definition objB :: DxDescribeDataObject where
  "objB = \<lparr>dx_Id = ''file-B'', dx_ProjId = ''project-1'', dx_Name = ''data.bin'', dx_Size = 20,
           dx_CtimeSeconds = 60, dx_MtimeSeconds = 150, dx_SymlinkPath = []\<rparr>"

definition objC :: DxDescribeDataObject where
  "objC = \<lparr>dx_Id = ''file-C'', dx_ProjId = ''project-1'', dx_Name = ''data.bin'', dx_Size = 30,
           dx_CtimeSeconds = 70, dx_MtimeSeconds = 160, dx_SymlinkPath = []\<rparr>"

definition folder0 :: DxFolder where
  "folder0 = \<lparr>dxf_dataObjects = [objA, objB, objC], dxf_subdirs = [''sub'']\<rparr>"

definition posix0 :: PosixDir where
  "posix0 = \<lparr>pd_dataObjects = [objA], pd_subdirs = [''sub''],
             pd_fauxSubdirs = [(''data.bin'',
                                [objB\<lparr>dx_Name := ''1_data.bin''\<rparr>, objC\<lparr>dx_Name := ''2_data.bin''\<rparr>])]\<rparr>"

definition env0 :: Env where
  "env0 = \<lparr>DxDescribeFolder = (\<lambda>log p f. Some folder0),
           PosixFixDir = (\<lambda>d. Some posix0),
           DxFileNew = (\<lambda>log p n f. Some ''file-NEW''),
           nowSeconds = 1000\<rparr>"



text \<open>The state after \<^verbatim>\<open>/proj\<close> has been populated from that folder.\<close>

definition fsListed :: Filesys where
  "fsListed = \<lparr>options = opts0,
          db = \<lparr>data_objects =
                  [\<lparr>do_kind = 10, do_id = ''file-A'', do_proj_id = ''project-1'',
                    do_inode = 3, do_size = 10, do_ctime = 50, do_mtime = 200,
                    do_nlink = 1, do_inline_data = []\<rparr>,
                   \<lparr>do_kind = 10, do_id = ''file-B'', do_proj_id = ''project-1'',
                    do_inode = 6, do_size = 20, do_ctime = 60, do_mtime = 150,
                    do_nlink = 1, do_inline_data = []\<rparr>,
                   \<lparr>do_kind = 10, do_id = ''file-C'', do_proj_id = ''project-1'',
                    do_inode = 7, do_size = 30, do_ctime = 70, do_mtime = 160,
                    do_nlink = 1, do_inline_data = []\<rparr>],
                namespace =
                  [\<lparr>ns_parent = [], ns_name = ''/'', ns_obj_type = 1, ns_inode = 1\<rparr>,
                   \<lparr>ns_parent = ''/'', ns_name = ''proj'', ns_obj_type = 1, ns_inode = 2\<rparr>,
                   \<lparr>ns_parent = ''/proj'', ns_name = ''a.txt'', ns_obj_type = 2, ns_inode = 3\<rparr>,
                   \<lparr>ns_parent = ''/proj'', ns_name = ''sub'', ns_obj_type = 1, ns_inode = 4\<rparr>,
                   \<lparr>ns_parent = ''/proj'', ns_name = ''data.bin'', ns_obj_type = 1,
                    ns_inode = 5\<rparr>,
                   \<lparr>ns_parent = ''/proj/data.bin'', ns_name = ''1_data.bin'',
                    ns_obj_type = 2, ns_inode = 6\<rparr>,
                   \<lparr>ns_parent = ''/proj/data.bin'', ns_name = ''2_data.bin'',
                    ns_obj_type = 2, ns_inode = 7\<rparr>],
                directories =
                  [\<lparr>dir_inode = 1, dir_proj_id = [], dir_proj_folder = [],
                    dir_populated = 1, dir_ctime = 100, dir_mtime = 100\<rparr>,
                   \<lparr>dir_inode = 2, dir_proj_id = ''project-1'', dir_proj_folder = ''/'',
                    dir_populated = 1, dir_ctime = 100, dir_mtime = 100\<rparr>,
                   \<lparr>dir_inode = 4, dir_proj_id = ''project-1'', dir_proj_folder = ''/sub'',
                    dir_populated = 0, dir_ctime = 50, dir_mtime = 200\<rparr>,
                   \<lparr>dir_inode = 5, dir_proj_id = ''project-1'', dir_proj_folder = [],
                    dir_populated = 1, dir_ctime = 50, dir_mtime = 200\<rparr>]\<rparr>,
          inodeCnt = 7,
          baseDir2ProjectId = [(''/proj'', ''project-1'')],
          calls = [DescribeFolder ''project-1'' ''/'']\<rparr>"

text \<open>The fix-up that has nothing to change: no two objects of the folder share a name.\<close>

definition fixNothing :: "DxFolder \<Rightarrow> PosixDir option" where
  "fixNothing d =
     Some \<lparr>pd_dataObjects = dxf_dataObjects d, pd_subdirs = dxf_subdirs d,
           pd_fauxSubdirs = []\<rparr>"

text \<open>
  A remote folder whose only file is named \<^verbatim>\<open>it''s\<close>, with two single quotes in the
  name.
\<close>

definition nameQuotes :: string where
  "nameQuotes = ''it'' @ [squote, squote] @ ''s''"

definition objQ :: DxDescribeDataObject where
  "objQ = \<lparr>dx_Id = ''file-Q'', dx_ProjId = ''project-1'', dx_Name = nameQuotes, dx_Size = 5,
           dx_CtimeSeconds = 80, dx_MtimeSeconds = 90, dx_SymlinkPath = []\<rparr>"

definition envQuotes :: Env where
  "envQuotes = env0\<lparr>DxDescribeFolder :=
                 (\<lambda>log p f. Some \<lparr>dxf_dataObjects = [objQ], dxf_subdirs = []\<rparr>),
               PosixFixDir := fixNothing\<rparr>"

text \<open>
  A file name that closes the string literal it is spliced into, goes on with two
  values and ends the statement before a comment: \<^verbatim>\<open>x', 2, 99); --\<close>.
\<close>

definition nameCloses :: string where
  "nameCloses = ''x'' @ [squote] @ '', 2, 99); --''"

definition objI :: DxDescribeDataObject where
  "objI = \<lparr>dx_Id = ''file-I'', dx_ProjId = ''project-1'', dx_Name = nameCloses, dx_Size = 5,
           dx_CtimeSeconds = 80, dx_MtimeSeconds = 90, dx_SymlinkPath = []\<rparr>"

definition envCloses :: Env where
  "envCloses = env0\<lparr>DxDescribeFolder :=
                 (\<lambda>log p f. Some \<lparr>dxf_dataObjects = [objI], dxf_subdirs = []\<rparr>),
               PosixFixDir := fixNothing\<rparr>"

text \<open>
  A remote folder whose only file is a symbolic link with the target \<^verbatim>\<open>0123\<close>.
\<close>

definition objN :: DxDescribeDataObject where
  "objN = \<lparr>dx_Id = ''file-N'', dx_ProjId = ''project-1'', dx_Name = ''lnk'', dx_Size = 0,
           dx_CtimeSeconds = 80, dx_MtimeSeconds = 90, dx_SymlinkPath = ''0123''\<rparr>"

definition envDigits :: Env where
  "envDigits = env0\<lparr>DxDescribeFolder :=
                 (\<lambda>log p f. Some \<lparr>dxf_dataObjects = [objN], dxf_subdirs = []\<rparr>),
               PosixFixDir := fixNothing\<rparr>"

definition dirProj :: DirNode where
  "dirProj = \<lparr>d_Parent = ''/'', d_Dname = ''proj'', d_FullPath = ''/proj'',
              d_Inode = 2, d_Ctime = 100, d_Mtime = 100, d_Mode = 0, d_Uid = 0, d_Gid = 0,
              d_ProjId = [], d_ProjFolder = [], d_Populated = False\<rparr>"



definition fsReadOnly :: Filesys where
  "fsReadOnly = fsListed\<lparr>options := opts0\<lparr>ReadOnly := True\<rparr>\<rparr>"
section \<open>Properties\<close>

subsection \<open>Classification of data objects\<close>

lemmas FK_defs = FK_Regular_def FK_Symlink_def FK_Applet_def FK_Workflow_def FK_Record_def
  FK_Database_def FK_Other_def

text \<open>
  C10. \<^verbatim>\<open>kindOfFile\<close> classifies a descriptor by the prefix of its id: the result is
  \<^verbatim>\<open>FK_Symlink\<close> exactly when the id starts with \<^verbatim>\<open>file-\<close> and the symlink path is not
  empty; it is \<^verbatim>\<open>FK_Regular\<close> for the other ids that start with \<^verbatim>\<open>file-\<close>, and
  \<^verbatim>\<open>FK_Applet\<close>, \<^verbatim>\<open>FK_Workflow\<close>, \<^verbatim>\<open>FK_Record\<close>, \<^verbatim>\<open>FK_Database\<close> for the prefixes
  \<^verbatim>\<open>applet-\<close>, \<^verbatim>\<open>workflow-\<close>, \<^verbatim>\<open>record-\<close>, \<^verbatim>\<open>database-\<close>; an id with none of the five
  prefixes gives \<^verbatim>\<open>FK_Other\<close>.
\<close>

theorem kindOfFile_by_prefix:
  "(kindOfFile ob = FK_Symlink \<longleftrightarrow> HasPrefix (dx_Id ob) ''file-'' \<and> dx_SymlinkPath ob \<noteq> []) \<and>
   (HasPrefix (dx_Id ob) ''file-'' \<and> dx_SymlinkPath ob = [] \<longrightarrow> kindOfFile ob = FK_Regular) \<and>
   (HasPrefix (dx_Id ob) ''applet-'' \<longrightarrow> kindOfFile ob = FK_Applet) \<and>
   (HasPrefix (dx_Id ob) ''workflow-'' \<longrightarrow> kindOfFile ob = FK_Workflow) \<and>
   (HasPrefix (dx_Id ob) ''record-'' \<longrightarrow> kindOfFile ob = FK_Record) \<and>
   (HasPrefix (dx_Id ob) ''database-'' \<longrightarrow> kindOfFile ob = FK_Database) \<and>
   (\<not> HasPrefix (dx_Id ob) ''file-'' \<and> \<not> HasPrefix (dx_Id ob) ''applet-'' \<and>
    \<not> HasPrefix (dx_Id ob) ''workflow-'' \<and> \<not> HasPrefix (dx_Id ob) ''record-'' \<and>
    \<not> HasPrefix (dx_Id ob) ''database-'' \<longrightarrow> kindOfFile ob = FK_Other)"
  by (cases "dx_Id ob") (auto simp: kindOfFile_def HasPrefix_def FK_defs Let_def)

theorem kindOfFile_by_prefix_witness:
  "kindOfFile (mkObj ''file-1'' ''/t'') = FK_Symlink \<and>
   kindOfFile (mkObj ''file-1'' []) = FK_Regular \<and>
   kindOfFile (mkObj ''applet-1'' ''/t'') = FK_Applet \<and>
   kindOfFile (mkObj ''workflow-1'' []) = FK_Workflow \<and>
   kindOfFile (mkObj ''record-1'' []) = FK_Record \<and>
   kindOfFile (mkObj ''database-1'' []) = FK_Database \<and>
   kindOfFile (mkObj ''job-1'' []) = FK_Other"
  using kindOfFile_by_prefix [of "mkObj ''file-1'' ''/t''"]
        kindOfFile_by_prefix [of "mkObj ''file-1'' []"]
        kindOfFile_by_prefix [of "mkObj ''applet-1'' ''/t''"]
        kindOfFile_by_prefix [of "mkObj ''workflow-1'' []"]
        kindOfFile_by_prefix [of "mkObj ''record-1'' []"]
        kindOfFile_by_prefix [of "mkObj ''database-1'' []"]
        kindOfFile_by_prefix [of "mkObj ''job-1'' []"]
  by (simp add: mkObj_def HasPrefix_def)

subsection \<open>Attributes of a directory\<close>

text \<open>
  C7. The claim is that the attributes of a directory node carry the \<^verbatim>\<open>Ctime\<close> and
  \<^verbatim>\<open>Mtime\<close> of the node. \<^verbatim>\<open>Dir.GetAttrs\<close> assigns the result's own fields to themselves,
  so the three times it returns are the zero time whatever the node holds; for the node
  \<open>dirSub\<close>, with times 50 and 200, the returned times differ from the stored ones.
\<close>

theorem Dir_GetAttrs_times_zero:
  "a_Ctime (Dir_GetAttrs dirSub) = zeroTime \<and> a_Mtime (Dir_GetAttrs dirSub) = zeroTime \<and>
   a_Crtime (Dir_GetAttrs dirSub) = zeroTime \<and>
   a_Ctime (Dir_GetAttrs dirSub) \<noteq> d_Ctime dirSub \<and>
   a_Mtime (Dir_GetAttrs dirSub) \<noteq> d_Mtime dirSub"
  by (simp add: Dir_GetAttrs_def zeroAttributes_def dirSub_def zeroTime_def)

subsection \<open>Project and folder of a directory\<close>

text \<open>
  C6. The claim is that the base directory chosen for a directory name is the longest
  one that is a prefix of it. The loop of \<^verbatim>\<open>projectIdAndFolder\<close> returns at the first
  prefix it meets: with the base directories \<^verbatim>\<open>/proj1\<close> and \<^verbatim>\<open>/proj10\<close> met in this
  order, the directory \<^verbatim>\<open>/proj10/data\<close> is attributed to the project of \<^verbatim>\<open>/proj1\<close>, with
  folder \<^verbatim>\<open>/0/data\<close>, although \<^verbatim>\<open>/proj10\<close> is a longer prefix.
\<close>

theorem projectIdAndFolder_first_match:
  "projectIdAndFolder_loop twoProjects ''/proj10/data'' = Inr (''project-A'', ''/0/data'') \<and>
   (''/proj10'', ''project-B'') \<in> set twoProjects \<and>
   HasPrefix ''/proj10/data'' ''/proj10'' \<and> length ''/proj1'' < length ''/proj10''"
  by (simp add: twoProjects_def HasPrefix_def)

subsection \<open>Populating a directory\<close>






text \<open>
  C1. The claim is that after a successful population every child of the fixed-up
  description has a namespace row under the directory. The name of a child is
  spliced into the text of the \<^verbatim>\<open>INSERT\<close> statement between single quotes, so a name
  with a single quote in it does not arrive in the table as it is. For the folder whose
  only file is named \<^verbatim>\<open>x', 2, 99); --\<close> the population of \<^verbatim>\<open>/proj\<close> succeeds and
  \<^verbatim>\<open>/proj\<close> is then looked up as populated, but the one namespace row that was added
  has the name \<^verbatim>\<open>x\<close> and the inode 99, while the data object got the inode 3: there is
  no row with the name of the child, and no row with its inode. For the folder whose
  only file is named \<^verbatim>\<open>it''s\<close> the population succeeds as well and the row that was
  added has the name \<^verbatim>\<open>it's\<close>.
\<close>

theorem populate_success_without_row:
  "directoryLookup fs0 ''/proj'' = Inr (dirExistsButNotPopulated, Some info_proj) \<and>
   fst (directoryReadFromDNAx envCloses fs0 2 ''project-1'' ''/'' 100 100 ''/proj'') = Inr () \<and>
   directoryLookup (snd (directoryReadFromDNAx envCloses fs0 2 ''project-1'' ''/'' 100 100 ''/proj''))
       ''/proj'' = Inr (dirExistAndPopulated, Some info_proj) \<and>
   PosixFixDir envCloses \<lparr>dxf_dataObjects = [objI], dxf_subdirs = []\<rparr>
     = Some \<lparr>pd_dataObjects = [objI], pd_subdirs = [], pd_fauxSubdirs = []\<rparr> \<and>
   dx_Name objI = nameCloses \<and>
   namespace (db (snd (directoryReadFromDNAx envCloses fs0 2 ''project-1'' ''/'' 100 100 ''/proj'')))
     = namespace (db fs0)
         @ [\<lparr>ns_parent = ''/proj'', ns_name = ''x'', ns_obj_type = 2, ns_inode = 99\<rparr>] \<and>
   map do_inode
       (data_objects (db (snd (directoryReadFromDNAx envCloses fs0 2 ''project-1'' ''/'' 100 100
                                 ''/proj'')))) = [3] \<and>
   (''/proj'', nameCloses)
     \<notin> set (map ns_key (namespace (db (snd (directoryReadFromDNAx envCloses fs0 2 ''project-1''
                                               ''/'' 100 100 ''/proj''))))) \<and>
   fst (directoryReadFromDNAx envQuotes fs0 2 ''project-1'' ''/'' 100 100 ''/proj'') = Inr () \<and>
   dx_Name objQ = nameQuotes \<and>
   namespace (db (snd (directoryReadFromDNAx envQuotes fs0 2 ''project-1'' ''/'' 100 100 ''/proj'')))
     = namespace (db fs0)
         @ [\<lparr>ns_parent = ''/proj'', ns_name = ''it's'', ns_obj_type = 2, ns_inode = 3\<rparr>] \<and>
   (''/proj'', nameQuotes)
     \<notin> set (map ns_key (namespace (db (snd (directoryReadFromDNAx envQuotes fs0 2 ''project-1''
                                               ''/'' 100 100 ''/proj'')))))"
  by code_simp

text \<open>
  C4. The claim is that after a successful population the directory record of the
  path stores the minimum of its children's creation times and the maximum of their
  modification times, which is what the comment in \<^verbatim>\<open>directoryReadFromDNAx\<close> announces
  (``The directory creation time is the minimum of all file creates''). The code
  computes the two approximations and gives them to the directory rows it creates for
  the subfolders; no statement writes them to the record of the directory itself. For
  \<^verbatim>\<open>/proj\<close>, stored with times 100 and 100, and children created at 50, 60, 70 and
  modified at 200, 150, 160, the record still holds 100 and 100 after the population.
\<close>

theorem populate_times_not_stored:
  "directoryLookup fs0 ''/proj'' = Inr (dirExistsButNotPopulated, Some info_proj) \<and>
   directoryReadFromDNAx env0 fs0 2 ''project-1'' ''/'' 100 100 ''/proj'' = (Inr (), fsListed) \<and>
   directoryLookup fsListed ''/proj'' = Inr (dirExistAndPopulated, Some info_proj) \<and>
   di_ctime info_proj = 100 \<and> di_mtime info_proj = 100 \<and>
   map dx_CtimeSeconds (dxf_dataObjects folder0) = [50, 60, 70] \<and>
   map dx_MtimeSeconds (dxf_dataObjects folder0) = [200, 150, 160] \<and>
   di_ctime info_proj \<noteq> Min (dx_CtimeSeconds ` set (dxf_dataObjects folder0)) \<and>
   di_mtime info_proj \<noteq> Max (dx_MtimeSeconds ` set (dxf_dataObjects folder0))"
proof -
  have a: "directoryLookup fs0 ''/proj'' = Inr (dirExistsButNotPopulated, Some info_proj)"
    by code_simp
  have b: "directoryReadFromDNAx env0 fs0 2 ''project-1'' ''/'' 100 100 ''/proj'' = (Inr (), fsListed)"
    by code_simp
  have c: "directoryLookup fsListed ''/proj'' = Inr (dirExistAndPopulated, Some info_proj)"
    by code_simp
  have d: "di_ctime info_proj = 100 \<and> di_mtime info_proj = 100"
    by (simp add: info_proj_def)
  have e: "map dx_CtimeSeconds (dxf_dataObjects folder0) = [50, 60, 70] \<and>
           map dx_MtimeSeconds (dxf_dataObjects folder0) = [200, 150, 160]"
    by (simp add: folder0_def objA_def objB_def objC_def)
  have f: "di_ctime info_proj \<noteq> Min (dx_CtimeSeconds ` set (dxf_dataObjects folder0)) \<and>
           di_mtime info_proj \<noteq> Max (dx_MtimeSeconds ` set (dxf_dataObjects folder0))"
    by (simp add: info_proj_def folder0_def objA_def objB_def objC_def)
  from a b c d e f show ?thesis by (simp only: simp_thms)
qed

subsection \<open>Link counts\<close>

text \<open>
  C3. The claim is that a successful \<^verbatim>\<open>createDataObject\<close> keeps the link count of every
  data object equal to the number of namespace rows with its inode. The name of the
  file is spliced into the text of the \<^verbatim>\<open>INSERT\<close> into \<^verbatim>\<open>namespace\<close>. In the store
  \<open>fsListed\<close>, where the invariant holds, the call for a new object \<^verbatim>\<open>file-D\<close> with the
  name \<^verbatim>\<open>x', 2, 99); --\<close> succeeds and returns the inode 8: the row of the data object
  has inode 8 and link count 1, the namespace row that was added has the inode 99, no
  namespace row has the inode 8, and the invariant does not hold any more.
\<close>

theorem createDataObject_breaks_link_inv:
  "link_inv (db fsListed) \<and>
   fst (createDataObject fsListed FK_Regular ''project-1'' ''file-D'' 5 10 20 ''/proj''
          nameCloses []) = Inr 8 \<and>
   data_objects (db (snd (createDataObject fsListed FK_Regular ''project-1'' ''file-D'' 5 10 20
                            ''/proj'' nameCloses [])))
     = data_objects (db fsListed)
         @ [\<lparr>do_kind = 10, do_id = ''file-D'', do_proj_id = ''project-1'', do_inode = 8,
             do_size = 5, do_ctime = 10, do_mtime = 20, do_nlink = 1, do_inline_data = []\<rparr>] \<and>
   namespace (db (snd (createDataObject fsListed FK_Regular ''project-1'' ''file-D'' 5 10 20
                         ''/proj'' nameCloses [])))
     = namespace (db fsListed)
         @ [\<lparr>ns_parent = ''/proj'', ns_name = ''x'', ns_obj_type = 2, ns_inode = 99\<rparr>] \<and>
   link_count (db (snd (createDataObject fsListed FK_Regular ''project-1'' ''file-D'' 5 10 20
                          ''/proj'' nameCloses []))) 8 = 0 \<and>
   \<not> link_inv (db (snd (createDataObject fsListed FK_Regular ''project-1'' ''file-D'' 5 10 20
                           ''/proj'' nameCloses [])))"
  by code_simp

subsection \<open>Inline data\<close>

text \<open>
  C9. The claim is that the inline data of a symbolic link is its target. The column
  \<^verbatim>\<open>inline_data\<close> is declared with the type \<^verbatim>\<open>string\<close>, where its neighbours \<^verbatim>\<open>id\<close> and
  \<^verbatim>\<open>proj_id\<close> are declared \<^verbatim>\<open>text\<close>; sqlite gives such a column numeric affinity and
  stores a value that looks like a number as a number. For the folder whose only file
  is a symbolic link with the target \<^verbatim>\<open>0123\<close>, the population of \<^verbatim>\<open>/proj\<close> succeeds, the
  object is classified as a symbolic link, and the inline data of its row, as the
  lookup of the file returns it, is \<^verbatim>\<open>123\<close>.
\<close>

theorem inline_data_of_symlink_changed:
  "kindOfFile objN = FK_Symlink \<and> dx_SymlinkPath objN = ''0123'' \<and>
   inlineDataOfFile (kindOfFile objN) objN = ''0123'' \<and>
   fst (directoryReadFromDNAx envDigits fs0 2 ''project-1'' ''/'' 100 100 ''/proj'') = Inr () \<and>
   data_objects (db (snd (directoryReadFromDNAx envDigits fs0 2 ''project-1'' ''/'' 100 100
                            ''/proj'')))
     = [\<lparr>do_kind = 11, do_id = ''file-N'', do_proj_id = ''project-1'', do_inode = 3,
         do_size = 0, do_ctime = 80, do_mtime = 90, do_nlink = 1, do_inline_data = ''123''\<rparr>] \<and>
   fst (MetadataDbLookupInDir envDigits fs0 ''/proj'' ''lnk'')
     = Inr (NFile \<lparr>f_Kind = 11, f_Id = ''file-N'', f_ProjId = ''project-1'', f_Name = ''lnk'',
                   f_Size = 0, f_Inode = 3, f_Ctime = 80, f_Mtime = 90, f_Mode = 0,
                   f_Nlink = 1, f_Uid = 0, f_Gid = 0, f_InlineData = ''123''\<rparr>)"
  by code_simp

subsection \<open>The store under the writes of a transaction\<close>

lemma setpop_inode [simp]: "dir_inode (setpop S r) = dir_inode r"
  by (simp add: setpop_def)

lemma setpop_fields [simp]:
  "dir_ctime (setpop S r) = dir_ctime r" "dir_mtime (setpop S r) = dir_mtime r"
  "dir_proj_id (setpop S r) = dir_proj_id r" "dir_proj_folder (setpop S r) = dir_proj_folder r"
  by (simp_all add: setpop_def)

lemma setpop_setpop [simp]: "setpop S2 (setpop S1 r) = setpop (S1 \<union> S2) r"
  by (simp add: setpop_def)

lemma setpop_empty [simp]: "setpop {} r = r"
  by (simp add: setpop_def)

lemma map_setpop_empty [simp]: "map (setpop {}) xs = xs"
  by (induction xs) simp_all


lemma inode_map_setpop [simp]: "dir_inode ` setpop S ` A = dir_inode ` A"
  by (force simp: image_iff)





















lemma setDirectoryToPopulated_calls [simp]:
  "calls (snd (setDirectoryToPopulated fs dinode)) = calls fs"
  by (simp add: setDirectoryToPopulated_def)



























subsection \<open>Looking a name up twice\<close>



subsection \<open>Creating a file on a read-only mount or project\<close>

lemma CreateFile_without_gate:
  "fst (CreateFile env0 fsReadOnly dirProj ''new.txt'' ''/staging/1'')
     = Inr \<lparr>f_Kind = 10, f_Id = ''file-NEW'', f_ProjId = ''project-1'', f_Name = ''new.txt'',
            f_Size = 0, f_Inode = 8, f_Ctime = 1000, f_Mtime = 1000, f_Mode = 0, f_Nlink = 1,
            f_Uid = 0, f_Gid = 0, f_InlineData = ''/staging/1''\<rparr> \<and>
   calls (snd (CreateFile env0 fsReadOnly dirProj ''new.txt'' ''/staging/1''))
     = [DescribeFolder ''project-1'' ''/'', FileNew ''project-1'' ''new.txt'' ''/'']"
  by code_simp




end
